theory Spec2Isabelle
  imports Complex_Main "HOL-Library.Word"
begin

section \<open>Terrace detection pipeline (master\_terrasses.py)\<close>

text \<open>
  Python floats and numpy float32/float64 samples are modelled as HOL reals: rounding and
  overflow are outside the model.  The elevations that the classifier reads may be NaN.  The libraries the script calls (rasterio, scipy,
  shapely) are not part of the repository; what they return is a parameter of the model.
\<close>

subsection \<open>Configuration constants\<close>

definition SEUIL_PENTE :: real where "SEUIL_PENTE = 15"
definition MIN_AREA :: real where "MIN_AREA = 20"
definition MAX_AREA :: real where "MAX_AREA = 10000"
definition DIST_SONDAGE :: real where "DIST_SONDAGE = 5"

subsection \<open>Blocks and windows\<close>

text \<open>A two-dimensional numpy array: its shape and its cells (row, column).\<close>

record 'a ndarray =
  nrows :: nat
  ncols :: nat
  cell :: "nat \<Rightarrow> nat \<Rightarrow> 'a"

definition shape_arr :: "'a ndarray \<Rightarrow> nat \<times> nat" where
  "shape_arr a = (nrows a, ncols a)"




text \<open>\<^verbatim>\<open>rasterio.windows.Window(col_off, row_off, width, height)\<close>\<close>

record window =
  col_off :: int
  row_off :: int
  width :: nat
  height :: nat

text \<open>The window read around a block: the block extended by \<open>pad\<close> pixels on every side.\<close>

definition padded_window :: "nat \<Rightarrow> window \<Rightarrow> window" where
  "padded_window pad w =
     \<lparr>col_off = col_off w - int pad, row_off = row_off w - int pad,
      width = width w + 2 * pad, height = height w + 2 * pad\<rparr>"

subsection \<open>Stage 1: slope (etape\_pente)\<close>






subsection \<open>Stage 2: slope breaks (etape\_ruptures)\<close>

text \<open>\<^verbatim>\<open>np.where(data > seuil, 1, 0).astype(np.uint8)\<close>\<close>

definition seuillage :: "real \<Rightarrow> real ndarray \<Rightarrow> 8 word ndarray" where
  "seuillage seuil data =
     \<lparr>nrows = nrows data, ncols = ncols data,
      cell = (\<lambda>i j. if cell data i j > seuil then 1 else 0)\<rparr>"

definition etape_ruptures :: "bool \<Rightarrow> (window \<Rightarrow> real ndarray) \<Rightarrow> window list \<Rightarrow> (window \<times> 8 word ndarray) list option" where
  "etape_ruptures ruptures_exists src_read windows_list =
     (if ruptures_exists then None
      else Some (map (\<lambda>w. (w, seuillage SEUIL_PENTE (src_read w))) windows_list))"

text \<open>
  A JSON value of a feature's \<^verbatim>\<open>properties\<close> dictionary; \<open>JNaN\<close> is the token
  \<^verbatim>\<open>NaN\<close> that \<^verbatim>\<open>json.dump\<close> writes for a float that is not a number.
\<close>

datatype jval = JInt int | JNum real | JNaN | JStr string

subsection \<open>Stage 3: vectorisation (process\_window\_batch, etape\_vectorisation)\<close>

text \<open>
  The geometry library and the raster reader, over the library's own geometries \<open>'g\<close> and
  the GeoJSON-like dictionaries \<open>'j\<close> that the tracer yields.  A function that returns an
  option raises when it returns \<open>None\<close>.
  \<^item> \<open>rio_read\<close>: \<^verbatim>\<open>src.read(1, window=read_win, boundless=True)\<close>; a file that cannot be
    opened is a reader that raises on every window;
  \<^item> \<open>rio_shapes\<close>: \<^verbatim>\<open>features.shapes(mask, mask=mask, transform=win_transform)\<close>, one
    pair (geometry, value) per connected region of the mask;
  \<^item> \<open>shape_of\<close>, \<open>simplify\<close>, \<open>buffer\<close> (distance, join style), \<open>is_empty\<close>, \<open>is_valid\<close>,
    \<open>area\<close>, \<open>perimeter\<close> (\<^verbatim>\<open>.length\<close>), \<open>unary_union\<close>: shapely;
  \<^item> \<open>geoms\<close>: \<^verbatim>\<open>list(g.geoms)\<close> when the geometry has parts, \<open>None\<close> when it has no
    attribute \<^verbatim>\<open>geoms\<close>;
  \<^item> \<open>wgs84_coordinates\<close>: \<^verbatim>\<open>mapping(transform(project, g))['coordinates']\<close>.
\<close>

datatype coords = Coord real | Coords "coords list"

record ('j, 'g) geo_env =
  rio_read :: "window \<Rightarrow> 8 word ndarray option"
  rio_shapes :: "8 word ndarray \<Rightarrow> window \<Rightarrow> ('j \<times> int) list option"
  shape_of :: "'j \<Rightarrow> 'g option"
  simplify :: "real \<Rightarrow> 'g \<Rightarrow> 'g option"
  buffer :: "real \<Rightarrow> nat \<Rightarrow> 'g \<Rightarrow> 'g option"
  is_empty :: "'g \<Rightarrow> bool"
  is_valid :: "'g \<Rightarrow> bool"
  area :: "'g \<Rightarrow> real"
  perimeter :: "'g \<Rightarrow> real"
  unary_union :: "'g list \<Rightarrow> 'g option"
  geoms :: "'g \<Rightarrow> 'g list option"
  wgs84_coordinates :: "'g \<Rightarrow> coords option"

text \<open>\<^verbatim>\<open>np.any(data == 1)\<close> and \<^verbatim>\<open>(data == 1).astype(np.uint8)\<close>\<close>

definition any_eq_1 :: "8 word ndarray \<Rightarrow> bool" where
  "any_eq_1 data =
     list_ex (\<lambda>i. list_ex (\<lambda>j. cell data i j = 1) [0 ..< ncols data]) [0 ..< nrows data]"

definition mask_eq_1 :: "8 word ndarray \<Rightarrow> 8 word ndarray" where
  "mask_eq_1 data =
     \<lparr>nrows = nrows data, ncols = ncols data,
      cell = (\<lambda>i j. if cell data i j = 1 then 1 else 0)\<rparr>"

text \<open>
  The body of the inner \<^verbatim>\<open>try\<close> for one traced region: \<open>Some g\<close> is
  \<^verbatim>\<open>polys.append(g)\<close>, \<open>None\<close> a \<^verbatim>\<open>continue\<close> or an exception that the
  \<^verbatim>\<open>except\<close> clause swallows.  The closing is \<^verbatim>\<open>buffer(3, join_style=1)\<close> followed by
  \<^verbatim>\<open>buffer(-3, join_style=1)\<close>; \<^verbatim>\<open>buffer(0)\<close> has the default join style, 1.
\<close>

definition lissage :: "('j, 'g) geo_env \<Rightarrow> 'g \<Rightarrow> 'g option" where
  "lissage E s_geom =
     (case buffer E 3 1 s_geom of
        None \<Rightarrow> None
      | Some dilated \<Rightarrow> buffer E (- 3) 1 dilated)"

definition process_shape :: "('j, 'g) geo_env \<Rightarrow> real \<Rightarrow> real \<Rightarrow> 'j \<Rightarrow> 'g option" where
  "process_shape E min_area simplify_tol geom =
     (case shape_of E geom of
        None \<Rightarrow> None
      | Some s0 \<Rightarrow>
          (case simplify E simplify_tol s0 of
             None \<Rightarrow> None
           | Some s_geom \<Rightarrow>
               if is_empty E s_geom then None
               else
                 (case lissage E s_geom of
                    None \<Rightarrow> None
                  | Some smoothed_geom \<Rightarrow>
                      if is_empty E smoothed_geom then None
                      else
                        (case (if \<not> is_valid E smoothed_geom then buffer E 0 1 smoothed_geom
                               else Some smoothed_geom) of
                           None \<Rightarrow> None
                         | Some repaired \<Rightarrow>
                             (let areal = area E repaired
                              in if areal < min_area then None
                                 else if areal > 10000 then None
                                 else Some repaired)))))"

text \<open>The regions of one window, in the order traced: those of value 1 that survive.\<close>

definition process_shapes :: "('j, 'g) geo_env \<Rightarrow> real \<Rightarrow> real \<Rightarrow> ('j \<times> int) list \<Rightarrow> 'g list" where
  "process_shapes E min_area simplify_tol shapes_gen =
     List.map_filter
       (\<lambda>(geom, val). if val = 1 then process_shape E min_area simplify_tol geom else None)
       shapes_gen"

text \<open>
  The loop over the windows of a batch, \<open>polys\<close> being the list built so far; \<open>None\<close> is an
  exception outside the inner \<^verbatim>\<open>try\<close>, which makes the worker return the empty list.
\<close>

fun process_windows :: "('j, 'g) geo_env \<Rightarrow> real \<Rightarrow> nat \<Rightarrow> real \<Rightarrow> window list \<Rightarrow> 'g list \<Rightarrow> 'g list option" where
  "process_windows E min_area pad simplify_tol [] polys = Some polys"
| "process_windows E min_area pad simplify_tol (w # ws) polys =
     (let read_win = padded_window pad w
      in case rio_read E read_win of
           None \<Rightarrow> None
         | Some data \<Rightarrow>
             if \<not> any_eq_1 data then process_windows E min_area pad simplify_tol ws polys
             else
               (case rio_shapes E (mask_eq_1 data) read_win of
                  None \<Rightarrow> None
                | Some shapes_gen \<Rightarrow>
                    process_windows E min_area pad simplify_tol ws
                      (polys @ process_shapes E min_area simplify_tol shapes_gen)))"

definition process_window_batch :: "('j, 'g) geo_env \<Rightarrow> window list \<Rightarrow> real \<Rightarrow> nat \<Rightarrow> real \<Rightarrow> 'g list" where
  "process_window_batch E windows_batch min_area pad simplify_tol =
     (case process_windows E min_area pad simplify_tol windows_batch [] of
        None \<Rightarrow> []
      | Some polys \<Rightarrow> polys)"

text \<open>
  \<^verbatim>\<open>[xs[i:i + n] for i in range(0, len(xs), n)]\<close>; the script calls it with the steps 50
  and 1000 (a step of 0, which \<^verbatim>\<open>range\<close> rejects, does not occur).
\<close>

fun chunks :: "nat \<Rightarrow> 'a list \<Rightarrow> 'a list list" where
  "chunks 0 xs = []"
| "chunks (Suc n) [] = []"
| "chunks (Suc n) (x # xs) = (x # take n xs) # chunks (Suc n) (drop n xs)"

text \<open>
  The fallback loop \<^verbatim>\<open>for chunk in chunks: partial_unions.append(unary_union(chunk))\<close>:
  the unions called, in order, and the partial unions, \<open>None\<close> when a union raised (the
  loop stops there).
\<close>

fun fusion_partielle :: "('g list \<Rightarrow> 'g option) \<Rightarrow> 'g list list \<Rightarrow> 'g list list \<times> 'g list option" where
  "fusion_partielle uu [] = ([], Some [])"
| "fusion_partielle uu (chunk # rest) =
     (case uu chunk of
        None \<Rightarrow> ([chunk], None)
      | Some u \<Rightarrow>
          (let (calls, partial_unions) = fusion_partielle uu rest
           in (chunk # calls, map_option (\<lambda>us. u # us) partial_unions)))"

text \<open>
  The global merge: the arguments of the calls of \<^verbatim>\<open>unary_union\<close>, in order, and the
  merged geometry; \<open>None\<close> is an exception that leaves the stage, since the fallback has no
  handler of its own.
\<close>

definition fusion_globale :: "('g list \<Rightarrow> 'g option) \<Rightarrow> 'g list \<Rightarrow> 'g list list \<times> 'g option" where
  "fusion_globale uu all_polygons =
     (case uu all_polygons of
        Some merged_geom \<Rightarrow> ([all_polygons], Some merged_geom)
      | None \<Rightarrow>
          (let (calls, partial_unions) = fusion_partielle uu (chunks 1000 all_polygons)
           in case partial_unions of
                None \<Rightarrow> (all_polygons # calls, None)
              | Some us \<Rightarrow> (all_polygons # calls @ [us], uu us)))"

text \<open>\<^verbatim>\<open>round(x, n)\<close> on a float: the nearest multiple of \<open>10\<^sup>-\<^sup>n\<close>, a tie going to the even one.\<close>

definition py_round :: "real \<Rightarrow> nat \<Rightarrow> real" where
  "py_round x n =
     (let y = x * 10 ^ n; f = \<lfloor>y\<rfloor>; d = y - of_int f
      in of_int (if d < 1 / 2 then f else if d > 1 / 2 then f + 1
                 else if even f then f else f + 1) / 10 ^ n)"

text \<open>\<^verbatim>\<open>int(x)\<close> on a float truncates towards zero.\<close>

definition py_int :: "real \<Rightarrow> int" where
  "py_int x = (if x \<ge> 0 then \<lfloor>x\<rfloor> else \<lceil>x\<rceil>)"

fun round_coords :: "coords \<Rightarrow> coords" where
  "round_coords (Coords xs) = Coords (map round_coords xs)"
| "round_coords (Coord x) = Coord (py_round x 6)"

text \<open>\<^verbatim>\<open>perim / (2 * np.sqrt(np.pi * area)) if area > 0 else 1.0\<close>\<close>

definition gravelius :: "real \<Rightarrow> real \<Rightarrow> real" where
  "gravelius perim area_v = (if area_v > 0 then perim / (2 * sqrt (pi * area_v)) else 1)"

text \<open>A feature as the export writes it.\<close>

record vfeature =
  vproperties :: "string \<rightharpoonup> jval"
  vcoordinates :: coords

text \<open>
  The body of the export loop for one merged polygon: \<open>Some\<close> is a feature written,
  \<open>None\<close> a \<^verbatim>\<open>continue\<close> or a swallowed exception.
\<close>

definition export_feature :: "('j, 'g) geo_env \<Rightarrow> 'g \<Rightarrow> vfeature option" where
  "export_feature E poly =
     (case simplify E 0.5 poly of
        None \<Rightarrow> None
      | Some final_poly \<Rightarrow>
          (let area_v = area E final_poly
           in if area_v < MIN_AREA then None
              else if area_v > MAX_AREA then None
              else
                (let perim = perimeter E final_poly
                 in case wgs84_coordinates E final_poly of
                      None \<Rightarrow> None
                    | Some cs \<Rightarrow>
                        Some \<lparr>vproperties =
                                [''t'' \<mapsto> JInt 1, ''a'' \<mapsto> JInt (py_int area_v),
                                 ''p'' \<mapsto> JInt (py_int perim),
                                 ''gc'' \<mapsto> JNum (py_round (gravelius perim area_v) 2)],
                              vcoordinates = round_coords cs\<rparr>)))"

text \<open>
  The stage, from the block windows of the break mask and the GeoJSON file as it is
  (\<open>None\<close>: no file): the count returned and the file afterwards; the result \<open>None\<close> is an
  exception that leaves the stage.  The worker pool maps the worker over the batches.
\<close>

definition etape_vectorisation :: "('j, 'g) geo_env \<Rightarrow> window list \<Rightarrow> vfeature list option \<Rightarrow> (nat \<times> vfeature list option) option" where
  "etape_vectorisation E windows_list geojson =
     (if geojson \<noteq> None then Some (0, geojson)
      else
        (let batches = chunks 50 windows_list;
             results = map (\<lambda>batch. process_window_batch E batch MIN_AREA 2 0.5) batches;
             all_polygons = concat results
         in if all_polygons = [] then Some (0, geojson)
            else
              (case snd (fusion_globale (unary_union E) all_polygons) of
                 None \<Rightarrow> None
               | Some merged_geom \<Rightarrow>
                   (let final_geoms = (case geoms E merged_geom of
                                         Some parts \<Rightarrow> parts
                                       | None \<Rightarrow> [merged_geom]);
                        written = List.map_filter (export_feature E) final_geoms
                    in Some (length written, Some written)))))"

subsection \<open>Stage 3b: classification (etape\_classification\_mnt)\<close>

type_synonym point = "real \<times> real"

text \<open>
  What the classifier reads of the shapely geometry \<^verbatim>\<open>shape(feat['geometry'])\<close>: the
  attributes \<^verbatim>\<open>is_empty\<close>, \<^verbatim>\<open>is_valid\<close>, \<^verbatim>\<open>area\<close>, \<^verbatim>\<open>length\<close> and
  \<^verbatim>\<open>list(minimum_rotated_rectangle.exterior.coords)\<close>.  A rotated rectangle that has no
  exterior ring (a point or a line) is a coordinate list too short to index.  The centroid
  is read by the script and never used.
\<close>

record geom =
  g_is_empty :: bool
  g_is_valid :: bool
  g_area :: real
  g_length :: real
  g_mrr :: "point list"

text \<open>A feature of the GeoJSON file; \<open>None\<close> is a geometry that \<^verbatim>\<open>shape\<close> rejects by raising.\<close>

record feature =
  geometry :: "geom option"
  properties :: "string \<rightharpoonup> jval"

record counters =
  count_terrasse :: nat
  count_mur :: nat
  count_err :: nat
  count_sliver :: nat

text \<open>
  A float that the elevation raster supplies, and what is computed from it: a number or
  NaN.  An infinite sample is a number beyond every bound.  Every comparison with NaN is
  false, and arithmetic on NaN gives NaN.
\<close>

datatype pyfloat = NaN | Fin real

fun py_lt :: "pyfloat \<Rightarrow> pyfloat \<Rightarrow> bool" where
  "py_lt (Fin a) (Fin b) = (a < b)"
| "py_lt _ _ = False"

fun py_eq :: "pyfloat \<Rightarrow> pyfloat \<Rightarrow> bool" where
  "py_eq (Fin a) (Fin b) = (a = b)"
| "py_eq _ _ = False"

fun py_sub :: "pyfloat \<Rightarrow> pyfloat \<Rightarrow> pyfloat" where
  "py_sub (Fin a) (Fin b) = Fin (a - b)"
| "py_sub _ _ = NaN"

fun py_abs :: "pyfloat \<Rightarrow> pyfloat" where
  "py_abs (Fin a) = Fin \<bar>a\<bar>"
| "py_abs NaN = NaN"

text \<open>\<^verbatim>\<open>round(x, n)\<close> of such a float, and the JSON value written for it.\<close>

fun py_round_float :: "pyfloat \<Rightarrow> nat \<Rightarrow> pyfloat" where
  "py_round_float (Fin a) n = Fin (py_round a n)"
| "py_round_float NaN n = NaN"

fun json_float :: "pyfloat \<Rightarrow> jval" where
  "json_float (Fin a) = JNum a"
| "json_float NaN = JNaN"

fun the_fin :: "pyfloat \<Rightarrow> real" where
  "the_fin (Fin a) = a"
| "the_fin NaN = 0"

text \<open>
  \<^verbatim>\<open>xs.sort()\<close> on a list of floats.  Without NaN the list comes back in ascending order.
  With a NaN among two or more elements \<^verbatim>\<open><\<close> is no total order and the list comes back
  in the order that the interpreter's algorithm happens to produce, which differs between
  versions of the interpreter: the parameter \<open>srt\<close>.
\<close>

definition list_sort :: "(pyfloat list \<Rightarrow> pyfloat list) \<Rightarrow> pyfloat list \<Rightarrow> pyfloat list" where
  "list_sort srt xs =
     (if length xs \<le> 1 then xs
      else if NaN \<in> set xs then srt xs
      else map Fin (sort (map the_fin xs)))"

text \<open>
  The opened elevation raster: \<open>mnt_index\<close> is \<^verbatim>\<open>mnt_src.index(x, y)\<close> (row, column) and
  \<open>mnt_band r c\<close> is the sample \<^verbatim>\<open>float(mnt_src.read(1, window=Window(c, r, 1, 1))[0, 0])\<close>.
\<close>

record mnt =
  mnt_nodata :: "pyfloat option"
  mnt_width :: int
  mnt_height :: int
  bounds_left :: real
  bounds_bottom :: real
  bounds_right :: real
  bounds_top :: real
  mnt_index :: "real \<Rightarrow> real \<Rightarrow> int \<times> int"
  mnt_band :: "int \<Rightarrow> int \<Rightarrow> pyfloat"

definition read_elev :: "mnt \<Rightarrow> real \<Rightarrow> real \<Rightarrow> pyfloat option" where
  "read_elev m x y =
     (if x < bounds_left m \<or> x > bounds_right m \<or> y < bounds_bottom m \<or> y > bounds_top m
      then None
      else
        (let (row, col) = mnt_index m x y
         in if 0 \<le> row \<and> row < mnt_height m \<and> 0 \<le> col \<and> col < mnt_width m
            then
              (let elev = mnt_band m row col
               in if (case mnt_nodata m of None \<Rightarrow> False | Some nodata \<Rightarrow> py_eq elev nodata)
                  then None
                  else if py_lt elev (Fin (- 100)) \<or> py_lt (Fin 5000) elev then None
                  else Some elev)
            else None))"

text \<open>\<^verbatim>\<open>(dx**2 + dy**2)**0.5\<close>\<close>

definition euclid :: "real \<Rightarrow> real \<Rightarrow> real" where
  "euclid dx dy = sqrt (dx\<^sup>2 + dy\<^sup>2)"

text \<open>
  The longer of the first two edges of the rotated rectangle: \<open>(dx, dy, ax_start, ax_end)\<close>.
  \<open>None\<close> is the IndexError of \<^verbatim>\<open>coords_mrr[k]\<close> on fewer than three coordinates.
\<close>

definition principal_axis :: "geom \<Rightarrow> (real \<times> real \<times> point \<times> point) option" where
  "principal_axis g =
     (case g_mrr g of
        c0 # c1 # c2 # _ \<Rightarrow>
          (let edge1_len = euclid (fst c1 - fst c0) (snd c1 - snd c0);
               edge2_len = euclid (fst c2 - fst c1) (snd c2 - snd c1)
           in if edge1_len \<ge> edge2_len
              then Some (fst c1 - fst c0, snd c1 - snd c0, c0, c1)
              else Some (fst c2 - fst c1, snd c2 - snd c1, c1, c2))
      | _ \<Rightarrow> None)"

text \<open>
  One station of the probe, at fraction \<open>fraction\<close> (the script's \<^verbatim>\<open>frac\<close>) of the axis: the absolute difference of the
  two elevations read at \<open>DIST_SONDAGE\<close> on either side, when both are read.
\<close>

definition sondage :: "mnt \<Rightarrow> point \<Rightarrow> point \<Rightarrow> real \<Rightarrow> real \<Rightarrow> real \<Rightarrow> pyfloat option" where
  "sondage m ax_start ax_end perp_x perp_y fraction =
     (let sx = fst ax_start + (fst ax_end - fst ax_start) * fraction;
          sy = snd ax_start + (snd ax_end - snd ax_start) * fraction;
          px_a = sx + perp_x * DIST_SONDAGE;
          py_a = sy + perp_y * DIST_SONDAGE;
          px_b = sx - perp_x * DIST_SONDAGE;
          py_b = sy - perp_y * DIST_SONDAGE;
          elev_a = read_elev m px_a py_a;
          elev_b = read_elev m px_b py_b
      in case elev_a of
           None \<Rightarrow> None
         | Some a \<Rightarrow> (case elev_b of None \<Rightarrow> None | Some b \<Rightarrow> Some (py_abs (py_sub a b))))"

definition multi_sondage :: "mnt \<Rightarrow> point \<Rightarrow> point \<Rightarrow> real \<Rightarrow> real \<Rightarrow> pyfloat list" where
  "multi_sondage m ax_start ax_end perp_x perp_y =
     List.map_filter (sondage m ax_start ax_end perp_x perp_y) [0.25, 0.5, 0.75]"

text \<open>
  \<^verbatim>\<open>delta = 0; if deltas: deltas.sort(); delta = deltas[len(deltas) // 2]\<close>, then
  \<^verbatim>\<open>round(delta, 2)\<close>: the integer 0 stays an integer, NaN stays NaN.
\<close>

definition delta_value :: "(pyfloat list \<Rightarrow> pyfloat list) \<Rightarrow> pyfloat list \<Rightarrow> jval" where
  "delta_value srt deltas =
     (if deltas = [] then JInt 0
      else json_float (py_round_float (list_sort srt deltas ! (length deltas div 2)) 2))"

text \<open>The two assignments \<^verbatim>\<open>c = 'm'\<close>, \<^verbatim>\<open>de = 0\<close> of the early exits.\<close>

definition mark_mur :: "feature \<Rightarrow> feature" where
  "mark_mur feat = feat\<lparr>properties := (properties feat)(''c'' \<mapsto> JStr ''m'', ''de'' \<mapsto> JInt 0)\<rparr>"

text \<open>
  The body of the \<^verbatim>\<open>try\<close> for one feature; \<open>None\<close> is an exception, which in this body
  can only be raised before the feature or a counter is changed.
\<close>

definition classify_try :: "(pyfloat list \<Rightarrow> pyfloat list) \<Rightarrow> mnt \<Rightarrow> feature \<Rightarrow> counters \<Rightarrow> (feature \<times> counters) option" where
  "classify_try srt m feat st =
     (case geometry feat of
        None \<Rightarrow> None
      | Some g \<Rightarrow>
          if g_is_empty g \<or> \<not> g_is_valid g
          then Some (mark_mur feat, st\<lparr>count_err := count_err st + 1\<rparr>)
          else
            (let area = g_area g; perim = g_length g
             in if area > 0 \<and> perim / sqrt area > 20
                then Some (mark_mur feat,
                           st\<lparr>count_sliver := count_sliver st + 1, count_mur := count_mur st + 1\<rparr>)
                else
                  (case principal_axis g of
                     None \<Rightarrow> None
                   | Some (dx, dy, ax_start, ax_end) \<Rightarrow>
                       (let length = euclid dx dy
                        in if length = 0
                           then Some (mark_mur feat, st\<lparr>count_mur := count_mur st + 1\<rparr>)
                           else
                             (let perp_x = - dy / length;
                                  perp_y = dx / length;
                                  deltas = multi_sondage m ax_start ax_end perp_x perp_y;
                                  gc_score = gravelius perim area;
                                  props = (properties feat)
                                            (''gc'' \<mapsto> JNum (py_round gc_score 2),
                                             ''de'' \<mapsto> delta_value srt deltas)
                              in if gc_score > 5
                                 then Some (feat\<lparr>properties := props(''c'' \<mapsto> JStr ''t'', ''t'' \<mapsto> JInt 1)\<rparr>,
                                            st\<lparr>count_terrasse := count_terrasse st + 1\<rparr>)
                                 else Some (feat\<lparr>properties := props(''c'' \<mapsto> JStr ''m'', ''t'' \<mapsto> JInt 0)\<rparr>,
                                            st\<lparr>count_mur := count_mur st + 1\<rparr>))))))"

text \<open>One iteration of the loop: the \<^verbatim>\<open>except\<close> clause marks the feature as a wall.\<close>

definition classify_feature :: "(pyfloat list \<Rightarrow> pyfloat list) \<Rightarrow> mnt \<Rightarrow> feature \<Rightarrow> counters \<Rightarrow> feature \<times> counters" where
  "classify_feature srt m feat st =
     (case classify_try srt m feat st of
        Some r \<Rightarrow> r
      | None \<Rightarrow>
          (feat\<lparr>properties := (properties feat)(''c'' \<mapsto> JStr ''m'', ''t'' \<mapsto> JInt 0, ''de'' \<mapsto> JInt 0)\<rparr>,
           st\<lparr>count_err := count_err st + 1\<rparr>))"

fun classify_all :: "(pyfloat list \<Rightarrow> pyfloat list) \<Rightarrow> mnt \<Rightarrow> feature list \<Rightarrow> counters \<Rightarrow> feature list \<times> counters" where
  "classify_all srt m [] st = ([], st)"
| "classify_all srt m (feat # feats) st =
     (let (feat', st') = classify_feature srt m feat st;
          (feats', st'') = classify_all srt m feats st'
      in (feat' # feats', st''))"

text \<open>
  The stage: skipped when the GeoJSON file or the elevation file is missing, otherwise the
  rewritten features and the four counters, started at zero.  \<open>srt\<close> is the interpreter's
  sort of a list that holds a NaN.
\<close>

definition etape_classification_mnt :: "(pyfloat list \<Rightarrow> pyfloat list) \<Rightarrow> feature list option \<Rightarrow> mnt option \<Rightarrow> (feature list \<times> counters) option" where
  "etape_classification_mnt srt geojson mnt_file =
     (case geojson of
        None \<Rightarrow> None
      | Some features_list \<Rightarrow>
          (case mnt_file of
             None \<Rightarrow> None
           | Some m \<Rightarrow>
               Some (classify_all srt m features_list
                       \<lparr>count_terrasse = 0, count_mur = 0, count_err = 0, count_sliver = 0\<rparr>)))"

section \<open>The median of the specification\<close>

text \<open>
  The median as the specification's word has it: the middle value of the sorted list, the
  mean of the two middle values when their number is even.
\<close>

definition median_spec :: "real list \<Rightarrow> real" where
  "median_spec xs =
     (let s = sort xs; n = length s
      in if n = 0 then 0
         else if odd n then s ! (n div 2)
         else (s ! (n div 2 - 1) + s ! (n div 2)) / 2)"

section \<open>Concrete inputs\<close>

subsection \<open>Two slope blocks\<close>





definition pentes_17_30 :: "real ndarray" where
  "pentes_17_30 = \<lparr>nrows = 1, ncols = 2, cell = (\<lambda>i j. if j = 0 then 17 else 30)\<rparr>"

subsection \<open>An elevation raster and four features\<close>

text \<open>
  A raster of 60 by 20 pixels of one metre, north up, its top left corner at (0, 10): the
  northern half lies at 100 m, the southern half at 101 m in the west and 103 m in the east.
\<close>

definition mnt_demo :: mnt where
  "mnt_demo = \<lparr>mnt_nodata = Some (Fin (- 9999)), mnt_width = 60, mnt_height = 20,
     bounds_left = 0, bounds_bottom = - 10, bounds_right = 60, bounds_top = 10,
     mnt_index = (\<lambda>x y. (\<lfloor>10 - y\<rfloor>, \<lfloor>x\<rfloor>)),
     mnt_band = (\<lambda>r c. if r < 10 then Fin 100 else if c < 30 then Fin 101 else Fin 103)\<rparr>"

text \<open>
  The same raster with NaN as its no-data value and no data in its southern half, and a
  sort that leaves a list as it is.
\<close>

definition mnt_nan :: mnt where
  "mnt_nan = \<lparr>mnt_nodata = Some NaN, mnt_width = 60, mnt_height = 20,
     bounds_left = 0, bounds_bottom = - 10, bounds_right = 60, bounds_top = 10,
     mnt_index = (\<lambda>x y. (\<lfloor>10 - y\<rfloor>, \<lfloor>x\<rfloor>)),
     mnt_band = (\<lambda>r c. if r < 10 then Fin 100 else NaN)\<rparr>"

definition srt_id :: "pyfloat list \<Rightarrow> pyfloat list" where
  "srt_id xs = xs"

definition st0 :: counters where
  "st0 = \<lparr>count_terrasse = 0, count_mur = 0, count_err = 0, count_sliver = 0\<rparr>"

text \<open>A ribbon of 100 m by 4 m along the x axis.\<close>

definition geom_ruban :: geom where
  "geom_ruban = \<lparr>g_is_empty = False, g_is_valid = True, g_area = 400, g_length = 208,
     g_mrr = [(0, 0), (100, 0), (100, 4), (0, 4), (0, 0)]\<rparr>"

definition feat_ruban :: feature where
  "feat_ruban = \<lparr>geometry = Some geom_ruban,
     properties = [''t'' \<mapsto> JInt 1, ''a'' \<mapsto> JInt 400, ''p'' \<mapsto> JInt 208, ''gc'' \<mapsto> JNum 2.93]\<rparr>"

text \<open>
  Two polygons of area 4 in a rotated rectangle of 19 by 1: one of perimeter 40
  (\<open>P / sqrt A = 20\<close>), one of perimeter \<open>20 * sqrt pi\<close> (compactness exactly 5).
\<close>

definition feat_allonge :: feature where
  "feat_allonge = \<lparr>geometry = Some \<lparr>g_is_empty = False, g_is_valid = True, g_area = 4,
       g_length = 40, g_mrr = [(0, 0), (19, 0), (19, 1), (0, 1), (0, 0)]\<rparr>,
     properties = [''t'' \<mapsto> JInt 1]\<rparr>"

definition feat_limite :: feature where
  "feat_limite = \<lparr>geometry = Some \<lparr>g_is_empty = False, g_is_valid = True, g_area = 4,
       g_length = 20 * sqrt pi, g_mrr = [(0, 0), (19, 0), (19, 1), (0, 1), (0, 0)]\<rparr>,
     properties = [''t'' \<mapsto> JInt 1]\<rparr>"

text \<open>A sliver: area 4, perimeter 50.\<close>

definition feat_sliver :: feature where
  "feat_sliver = \<lparr>geometry = Some \<lparr>g_is_empty = False, g_is_valid = True, g_area = 4,
       g_length = 50, g_mrr = [(0, 0), (24, 0), (24, 1), (0, 1), (0, 0)]\<rparr>,
     properties = [''t'' \<mapsto> JInt 1, ''gc'' \<mapsto> JNum 7.05]\<rparr>"

text \<open>
  Three geometries of no extent at the point (3, 3): a valid one whose rotated rectangle is
  a ring of five equal points, an invalid polygon of four equal points, and a point, whose
  rotated rectangle has no exterior ring.
\<close>

definition feat_point :: feature where
  "feat_point = \<lparr>geometry = Some \<lparr>g_is_empty = False, g_is_valid = True, g_area = 0,
       g_length = 0, g_mrr = [(3, 3), (3, 3), (3, 3), (3, 3), (3, 3)]\<rparr>,
     properties = [''t'' \<mapsto> JInt 1, ''gc'' \<mapsto> JNum 1]\<rparr>"

definition feat_invalide :: feature where
  "feat_invalide = \<lparr>geometry = Some \<lparr>g_is_empty = False, g_is_valid = False, g_area = 0,
       g_length = 0, g_mrr = [(3, 3), (3, 3), (3, 3), (3, 3), (3, 3)]\<rparr>,
     properties = [''t'' \<mapsto> JInt 1, ''gc'' \<mapsto> JNum 1]\<rparr>"

definition feat_sans_anneau :: feature where
  "feat_sans_anneau = \<lparr>geometry = Some \<lparr>g_is_empty = False, g_is_valid = True, g_area = 0,
       g_length = 0, g_mrr = []\<rparr>,
     properties = [''t'' \<mapsto> JInt 1, ''gc'' \<mapsto> JNum 1]\<rparr>"

subsection \<open>A geometry library of strips\<close>

text \<open>
  A geometry is a strip 5 units high cut into segments \<open>(a, b)\<close> of the x axis, listed from
  left to right; its area is 5 times the length covered.  A buffer moves both ends of
  every segment: outwards it welds the segments that meet, inwards it drops those that
  vanish.  A segment with \<open>b < a\<close> is malformed: the geometry is invalid and a union that
  meets it raises.
\<close>

type_synonym bande = "(real \<times> real) list"

fun souder :: "bande \<Rightarrow> bande" where
  "souder [] = []"
| "souder [s] = [s]"
| "souder ((a, b) # (c, d) # rest) =
     (if c \<le> b then souder ((a, max b d) # rest) else (a, b) # souder ((c, d) # rest))"

definition bande_buffer :: "real \<Rightarrow> nat \<Rightarrow> bande \<Rightarrow> bande option" where
  "bande_buffer distance join_style g =
     (let moved = map (\<lambda>(a, b). (a - distance, b + distance)) g
      in Some (if distance \<ge> 0 then souder moved else filter (\<lambda>(a, b). a < b) moved))"

definition bande_valid :: "bande \<Rightarrow> bool" where
  "bande_valid g = list_all (\<lambda>(a, b). a \<le> b) g"

definition bande_area :: "bande \<Rightarrow> real" where
  "bande_area g = 5 * sum_list (map (\<lambda>(a, b). b - a) g)"

definition bande_union :: "bande list \<Rightarrow> bande option" where
  "bande_union gs =
     (if list_all bande_valid gs then Some (souder (sort_key fst (concat gs))) else None)"

text \<open>
  A block of 7 by 5 pixels of one metre, read with its margin of 2 pixels: two regions of
  3 by 5 pixels (15 square metres each) one pixel apart, and the same block with no pixel set.
\<close>

definition bloc_7x5 :: window where
  "bloc_7x5 = \<lparr>col_off = 0, row_off = 0, width = 7, height = 5\<rparr>"

definition data_fragments :: "8 word ndarray" where
  "data_fragments = \<lparr>nrows = 9, ncols = 11,
     cell = (\<lambda>i j. if 2 \<le> i \<and> i < 7 \<and> (2 \<le> j \<and> j < 5 \<or> 6 \<le> j \<and> j < 9) then 1 else 0)\<rparr>"

definition data_plat :: "8 word ndarray" where
  "data_plat = \<lparr>nrows = 9, ncols = 11, cell = (\<lambda>i j. 0)\<rparr>"

text \<open>The library over strips; the tracer yields the two regions of \<open>data_fragments\<close>.\<close>

definition E_bandes :: "8 word ndarray \<Rightarrow> (bande, bande) geo_env" where
  "E_bandes data = \<lparr>rio_read = (\<lambda>w. Some data),
     rio_shapes = (\<lambda>mask w. Some [([(0, 3)], 1), ([(4, 7)], 1)]),
     shape_of = Some,
     simplify = (\<lambda>tol g. Some g),
     buffer = bande_buffer,
     is_empty = (\<lambda>g. g = []),
     is_valid = bande_valid,
     area = bande_area,
     perimeter = (\<lambda>g. sum_list (map (\<lambda>(a, b). 2 * (b - a) + 10) g)),
     unary_union = bande_union,
     geoms = (\<lambda>g. Some (map (\<lambda>s. [s]) g)),
     wgs84_coordinates = (\<lambda>g. Some (Coords (map (\<lambda>(a, b). Coords [Coord a, Coord b]) g)))\<rparr>"

section \<open>Properties\<close>

subsection \<open>Break mask\<close>

text \<open>
  C8: for any two thresholds \<open>t1 \<le> t2\<close> and every pixel, the mask of threshold \<open>t2\<close> is
  at most the mask of threshold \<open>t1\<close> (raising the threshold only removes pixels), and a
  pixel is 1 exactly when its slope is strictly above the threshold, 0 otherwise.
\<close>

theorem seuillage_monotone:
  assumes "t1 \<le> t2"
  shows "cell (seuillage t2 d) i j \<le> cell (seuillage t1 d) i j
       \<and> (cell (seuillage t1 d) i j = 1 \<longleftrightarrow> cell d i j > t1)
       \<and> (cell (seuillage t1 d) i j = 0 \<longleftrightarrow> \<not> cell d i j > t1)
       \<and> shape_arr (seuillage t1 d) = shape_arr d"
  using assms by (simp add: seuillage_def shape_arr_def)

theorem seuillage_monotone_witness:
  "(15::real) \<le> 20
   \<and> cell (seuillage 20 pentes_17_30) 0 0 \<le> cell (seuillage 15 pentes_17_30) 0 0
   \<and> cell (seuillage 15 pentes_17_30) 0 0 = 1
   \<and> cell (seuillage 20 pentes_17_30) 0 0 = 0"
  using seuillage_monotone [of 15 20 pentes_17_30 0 0]
  by (simp add: seuillage_def pentes_17_30_def)

subsection \<open>Slope blocks\<close>





subsection \<open>Classification\<close>

lemma euclid_axis_x: "euclid a 0 = \<bar>a\<bar>"
  by (simp add: euclid_def)

lemma euclid_axis_y: "euclid 0 b = \<bar>b\<bar>"
  by (simp add: euclid_def)

lemma sqrt_400: "sqrt 400 = 20"
  by (rule real_sqrt_unique) simp_all

lemma sqrt_pi_le_2: "sqrt pi \<le> 2"
proof -
  have "sqrt pi \<le> sqrt 4" using pi_less_4 by (simp only: real_sqrt_le_iff)
  then show ?thesis by simp
qed

lemma sqrt_pi_pos: "0 < sqrt pi"
  by simp

lemma classify_try_sliver:
  assumes "geometry feat = Some g" "\<not> g_is_empty g" "g_is_valid g" "g_area g > 0"
    "g_length g / sqrt (g_area g) > 20"
  shows "classify_try srt m feat st =
     Some (mark_mur feat, st\<lparr>count_sliver := count_sliver st + 1, count_mur := count_mur st + 1\<rparr>)"
  using assms by (simp add: classify_try_def Let_def)

lemma classify_try_degenerate:
  assumes "geometry feat = Some g" "\<not> g_is_empty g" "g_is_valid g"
    "\<not> (g_area g > 0 \<and> g_length g / sqrt (g_area g) > 20)"
    "principal_axis g = Some (dx, dy, ax_start, ax_end)" "euclid dx dy = 0"
  shows "classify_try srt m feat st = Some (mark_mur feat, st\<lparr>count_mur := count_mur st + 1\<rparr>)"
  using assms by (auto simp: classify_try_def Let_def)

lemma classify_try_probe:
  assumes "geometry feat = Some g" "\<not> g_is_empty g" "g_is_valid g"
    "\<not> (g_area g > 0 \<and> g_length g / sqrt (g_area g) > 20)"
    "principal_axis g = Some (dx, dy, ax_start, ax_end)" "euclid dx dy \<noteq> 0"
  shows "classify_try srt m feat st =
     (let deltas = multi_sondage m ax_start ax_end (- dy / euclid dx dy) (dx / euclid dx dy);
          gc_score = gravelius (g_length g) (g_area g);
          props = (properties feat)(''gc'' \<mapsto> JNum (py_round gc_score 2), ''de'' \<mapsto> delta_value srt deltas)
      in if gc_score > 5
         then Some (feat\<lparr>properties := props(''c'' \<mapsto> JStr ''t'', ''t'' \<mapsto> JInt 1)\<rparr>,
                    st\<lparr>count_terrasse := count_terrasse st + 1\<rparr>)
         else Some (feat\<lparr>properties := props(''c'' \<mapsto> JStr ''m'', ''t'' \<mapsto> JInt 0)\<rparr>,
                    st\<lparr>count_mur := count_mur st + 1\<rparr>))"
  using assms by (auto simp: classify_try_def Let_def)

lemma classify_feature_de:
  assumes "geometry feat = Some g" "\<not> g_is_empty g" "g_is_valid g"
    "\<not> (g_area g > 0 \<and> g_length g / sqrt (g_area g) > 20)"
    "principal_axis g = Some (dx, dy, ax_start, ax_end)" "euclid dx dy \<noteq> 0"
  shows "properties (fst (classify_feature srt m feat st)) ''de''
           = Some (delta_value srt (multi_sondage m ax_start ax_end (- dy / euclid dx dy) (dx / euclid dx dy)))"
  using classify_try_probe [OF assms, of srt m st] by (simp add: classify_feature_def Let_def)

lemma principal_axis_19x1:
  "principal_axis \<lparr>g_is_empty = e, g_is_valid = v, g_area = a, g_length = l,
      g_mrr = [(0, 0), (19, 0), (19, 1), (0, 1), (0, 0)]\<rparr> = Some (19, 0, (0, 0), (19, 0))"
  by (simp add: principal_axis_def euclid_axis_x euclid_axis_y)

text \<open>
  C1: a polygon that passes the guards (geometry read, not empty, valid, area positive,
  \<open>P / sqrt A \<le> 20\<close>, principal axis of non-zero length) is labelled terrace, with type 1,
  exactly when \<open>P / (2 * sqrt (pi * A)) > 5\<close>, and wall, with type 0, otherwise; the counter
  of its label is incremented.  A compactness of exactly 5 gives wall.
\<close>

theorem classification_gravelius:
  assumes "geometry feat = Some g" and "\<not> g_is_empty g" and "g_is_valid g"
    and "g_area g > 0" and "g_length g / sqrt (g_area g) \<le> 20"
    and "principal_axis g = Some (dx, dy, ax_start, ax_end)" and "euclid dx dy \<noteq> 0"
  shows "(properties (fst (classify_feature srt m feat st)) ''c'' = Some (JStr ''t'')
            \<longleftrightarrow> g_length g / (2 * sqrt (pi * g_area g)) > 5)
       \<and> (properties (fst (classify_feature srt m feat st)) ''c'' = Some (JStr ''m'')
            \<longleftrightarrow> g_length g / (2 * sqrt (pi * g_area g)) \<le> 5)
       \<and> properties (fst (classify_feature srt m feat st)) ''t''
            = Some (JInt (if g_length g / (2 * sqrt (pi * g_area g)) > 5 then 1 else 0))
       \<and> snd (classify_feature srt m feat st)
            = (if g_length g / (2 * sqrt (pi * g_area g)) > 5
               then st\<lparr>count_terrasse := count_terrasse st + 1\<rparr>
               else st\<lparr>count_mur := count_mur st + 1\<rparr>)"
proof -
  from assms(5) have ns: "\<not> (g_area g > 0 \<and> g_length g / sqrt (g_area g) > 20)" by simp
  have gc: "gravelius (g_length g) (g_area g) = g_length g / (2 * sqrt (pi * g_area g))"
    using assms(4) by (simp add: gravelius_def)
  show ?thesis
    using classify_try_probe [OF assms(1-3) ns assms(6,7), of srt m st] gc
    by (simp add: classify_feature_def Let_def)
qed

theorem classification_gravelius_witness:
  "geometry feat_allonge \<noteq> None
   \<and> g_length (the (geometry feat_allonge)) / sqrt (g_area (the (geometry feat_allonge))) \<le> 20
   \<and> g_length (the (geometry feat_allonge)) / (2 * sqrt (pi * g_area (the (geometry feat_allonge)))) > 5
   \<and> properties (fst (classify_feature srt_id mnt_demo feat_allonge st0)) ''c'' = Some (JStr ''t'')
   \<and> snd (classify_feature srt_id mnt_demo feat_allonge st0) = st0\<lparr>count_terrasse := 1\<rparr>
   \<and> g_length (the (geometry feat_limite)) / sqrt (g_area (the (geometry feat_limite))) \<le> 20
   \<and> g_length (the (geometry feat_limite)) / (2 * sqrt (pi * g_area (the (geometry feat_limite)))) = 5
   \<and> properties (fst (classify_feature srt_id mnt_demo feat_limite st0)) ''c'' = Some (JStr ''m'')
   \<and> snd (classify_feature srt_id mnt_demo feat_limite st0) = st0\<lparr>count_mur := 1\<rparr>"
proof -
  let ?ga = "\<lparr>g_is_empty = False, g_is_valid = True, g_area = 4, g_length = 40,
               g_mrr = [(0, 0), (19, 0), (19, 1), (0, 1), (0, 0)]\<rparr>"
  let ?gl = "\<lparr>g_is_empty = False, g_is_valid = True, g_area = 4, g_length = 20 * sqrt pi,
               g_mrr = [(0, 0), (19, 0), (19, 1), (0, 1), (0, 0)]\<rparr>"
  have e: "euclid 19 0 \<noteq> 0" by (simp add: euclid_axis_x)
  have ga: "geometry feat_allonge = Some ?ga" by (simp add: feat_allonge_def)
  have gl: "geometry feat_limite = Some ?gl" by (simp add: feat_limite_def)
  have ra: "g_length ?ga / sqrt (g_area ?ga) \<le> 20" by simp
  have rl: "g_length ?gl / sqrt (g_area ?gl) \<le> 20" using sqrt_pi_le_2 by simp
  have ca: "g_length ?ga / (2 * sqrt (pi * g_area ?ga)) > 5"
    using sqrt_pi_le_2 sqrt_pi_pos pi_less_4
    by (simp add: real_sqrt_mult pos_less_divide_eq) (metis less_le real_sqrt_four real_sqrt_eq_iff)
  have cl: "g_length ?gl / (2 * sqrt (pi * g_area ?gl)) = 5"
    using sqrt_pi_pos by (simp add: real_sqrt_mult)
  from classification_gravelius [OF ga _ _ _ ra principal_axis_19x1 e, of srt_id mnt_demo st0] ca
  have a: "properties (fst (classify_feature srt_id mnt_demo feat_allonge st0)) ''c'' = Some (JStr ''t'')"
     "snd (classify_feature srt_id mnt_demo feat_allonge st0) = st0\<lparr>count_terrasse := 1\<rparr>"
    by (simp_all add: st0_def)
  from classification_gravelius [OF gl _ _ _ rl principal_axis_19x1 e, of srt_id mnt_demo st0] cl
  have l: "properties (fst (classify_feature srt_id mnt_demo feat_limite st0)) ''c'' = Some (JStr ''m'')"
     "snd (classify_feature srt_id mnt_demo feat_limite st0) = st0\<lparr>count_mur := 1\<rparr>"
    by (simp_all add: st0_def)
  from ga gl ra rl ca cl a l show ?thesis by simp
qed

text \<open>
  C2: a polygon with a geometry that is read, not empty and valid, of area \<open>A > 0\<close> and
  perimeter \<open>P\<close> with \<open>P / sqrt A > 20\<close>, is labelled wall with delta 0 and counted as a
  sliver and as a wall; nothing else of the feature or of the counters changes, whatever
  the compactness, the rotated rectangle and the elevation raster are.
\<close>

theorem sliver_is_mur:
  assumes "geometry feat = Some g" and "\<not> g_is_empty g" and "g_is_valid g"
    and "g_area g > 0" and "g_length g / sqrt (g_area g) > 20"
  shows "classify_feature srt m feat st =
     (feat\<lparr>properties := (properties feat)(''c'' \<mapsto> JStr ''m'', ''de'' \<mapsto> JInt 0)\<rparr>,
      st\<lparr>count_sliver := count_sliver st + 1, count_mur := count_mur st + 1\<rparr>)"
  using classify_try_sliver [OF assms] by (simp add: classify_feature_def mark_mur_def)

theorem sliver_is_mur_witness:
  "geometry feat_sliver \<noteq> None
   \<and> g_length (the (geometry feat_sliver)) / sqrt (g_area (the (geometry feat_sliver))) = 25
   \<and> properties (fst (classify_feature srt_id mnt_demo feat_sliver st0)) ''c'' = Some (JStr ''m'')
   \<and> properties (fst (classify_feature srt_id mnt_demo feat_sliver st0)) ''de'' = Some (JInt 0)
   \<and> properties (fst (classify_feature srt_id mnt_demo feat_sliver st0)) ''gc'' = Some (JNum 7.05)
   \<and> snd (classify_feature srt_id mnt_demo feat_sliver st0) = st0\<lparr>count_sliver := 1, count_mur := 1\<rparr>"
proof -
  let ?g = "\<lparr>g_is_empty = False, g_is_valid = True, g_area = 4, g_length = 50,
              g_mrr = [(0, 0), (24, 0), (24, 1), (0, 1), (0, 0)]\<rparr>"
  have g: "geometry feat_sliver = Some ?g" by (simp add: feat_sliver_def)
  have r: "g_length ?g / sqrt (g_area ?g) > 20" by simp
  from sliver_is_mur [OF g _ _ _ r, of srt_id mnt_demo st0] g show ?thesis
    by (simp add: st0_def feat_sliver_def)
qed

lemma principal_axis_ruban: "principal_axis geom_ruban = Some (100, 0, (0, 0), (100, 0))"
  by (simp add: principal_axis_def geom_ruban_def euclid_axis_x euclid_axis_y)

lemma ruban_not_sliver:
  "\<not> (g_area geom_ruban > 0 \<and> g_length geom_ruban / sqrt (g_area geom_ruban) > 20)"
  by (simp add: geom_ruban_def sqrt_400)

lemma read_elev_demo:
  "read_elev mnt_demo 25 5 = Some (Fin 100)" "read_elev mnt_demo 25 (- 5) = Some (Fin 101)"
  "read_elev mnt_demo 50 5 = Some (Fin 100)" "read_elev mnt_demo 50 (- 5) = Some (Fin 103)"
  "read_elev mnt_demo 75 5 = None" "read_elev mnt_demo 75 (- 5) = None"
  by (simp_all add: read_elev_def mnt_demo_def)

lemma multi_sondage_ruban: "multi_sondage mnt_demo (0, 0) (100, 0) 0 1 = [Fin 1, Fin 3]"
  by (simp add: multi_sondage_def List.map_filter_simps sondage_def DIST_SONDAGE_def read_elev_demo)

lemma py_round_3: "py_round 3 2 = 3"
  by (simp add: py_round_def)

lemma delta_value_1_3: "delta_value srt [Fin 1, Fin 3] = JNum 3"
  by (simp add: delta_value_def list_sort_def py_round_3)

lemma median_spec_1_3: "median_spec [1, 3] = 2"
  by (simp add: median_spec_def)

lemma multi_sondage_explicit:
  "multi_sondage m (x0, y0) (x1, y1) u v =
     List.map_filter
       (\<lambda>f. case (read_elev m (x0 + (x1 - x0) * f + u * 5) (y0 + (y1 - y0) * f + v * 5),
                   read_elev m (x0 + (x1 - x0) * f - u * 5) (y0 + (y1 - y0) * f - v * 5)) of
               (Some a, Some b) \<Rightarrow> Some (py_abs (py_sub a b))
             | _ \<Rightarrow> None)
       [1 / 4, 1 / 2, 3 / 4]"
proof -
  have "sondage m (x0, y0) (x1, y1) u v =
     (\<lambda>f. case (read_elev m (x0 + (x1 - x0) * f + u * 5) (y0 + (y1 - y0) * f + v * 5),
                 read_elev m (x0 + (x1 - x0) * f - u * 5) (y0 + (y1 - y0) * f - v * 5)) of
             (Some a, Some b) \<Rightarrow> Some (py_abs (py_sub a b))
           | _ \<Rightarrow> None)"
    by (rule ext) (simp add: sondage_def DIST_SONDAGE_def Let_def split: option.splits)
  then show ?thesis by (simp add: multi_sondage_def)
qed

lemma unit_perpendicular:
  assumes "euclid dx dy \<noteq> 0"
  shows "(- dy / euclid dx dy)\<^sup>2 + (dx / euclid dx dy)\<^sup>2 = 1"
    and "(- dy / euclid dx dy) * dx + (dx / euclid dx dy) * dy = 0"
proof -
  from assms have nz: "dx\<^sup>2 + dy\<^sup>2 \<noteq> 0" by (auto simp: euclid_def)
  have sq: "(euclid dx dy)\<^sup>2 = dx\<^sup>2 + dy\<^sup>2" by (simp add: euclid_def)
  have "(- dy / euclid dx dy)\<^sup>2 + (dx / euclid dx dy)\<^sup>2 = (dy\<^sup>2 + dx\<^sup>2) / (euclid dx dy)\<^sup>2"
    by (simp add: power_divide add_divide_distrib)
  also have "\<dots> = 1" using nz by (simp add: sq add.commute)
  finally show "(- dy / euclid dx dy)\<^sup>2 + (dx / euclid dx dy)\<^sup>2 = 1" .
  show "(- dy / euclid dx dy) * dx + (dx / euclid dx dy) * dy = 0" by (simp add: mult.commute)
qed

lemma delta_value_cases:
  "delta_value srt [] = JInt 0"
  "delta_value srt [Fin a] = JNum (py_round a 2)"
  "delta_value srt [Fin a, Fin b] = JNum (py_round (max a b) 2)"
  "delta_value srt [Fin a, Fin b, Fin c] = JNum (py_round (max (min a b) (min (max a b) c)) 2)"
  by (auto simp: delta_value_def list_sort_def max_def min_def)

text \<open>
  C6, as the script has it: for a polygon that reaches the probe, with principal axis from
  \<open>(x0, y0)\<close> to \<open>(x1, y1)\<close> and unit perpendicular \<open>(u, v)\<close>, the elevation is read at the
  stations 1/4, 1/2 and 3/4 of the axis, 5 units away on either side along \<open>(u, v)\<close>; a
  station where both readings are valid gives their absolute difference; the field \<open>de\<close>
  is the integer 0 when no station is valid, and otherwise the rounding to two decimals of
  the sorted differences' element of index \<open>n div 2\<close>: the only one, the larger of two, the
  middle one of three.
\<close>

theorem probe_delta_recorded:
  assumes "geometry feat = Some g" and "\<not> g_is_empty g" and "g_is_valid g"
    and "\<not> (g_area g > 0 \<and> g_length g / sqrt (g_area g) > 20)"
    and "principal_axis g = Some (dx, dy, (x0, y0), (x1, y1))" and "euclid dx dy \<noteq> 0"
    and "u = - dy / euclid dx dy" and "v = dx / euclid dx dy"
  shows "u\<^sup>2 + v\<^sup>2 = 1 \<and> u * dx + v * dy = 0
       \<and> properties (fst (classify_feature srt m feat st)) ''de''
           = Some (delta_value srt (List.map_filter
               (\<lambda>f. case (read_elev m (x0 + (x1 - x0) * f + u * 5) (y0 + (y1 - y0) * f + v * 5),
                           read_elev m (x0 + (x1 - x0) * f - u * 5) (y0 + (y1 - y0) * f - v * 5)) of
                       (Some a, Some b) \<Rightarrow> Some (py_abs (py_sub a b))
                     | _ \<Rightarrow> None)
               [1 / 4, 1 / 2, 3 / 4]))
       \<and> py_abs (py_sub (Fin p) (Fin q)) = Fin \<bar>p - q\<bar>
       \<and> delta_value srt [] = JInt 0
       \<and> delta_value srt [Fin a] = JNum (py_round a 2)
       \<and> delta_value srt [Fin a, Fin b] = JNum (py_round (max a b) 2)
       \<and> delta_value srt [Fin a, Fin b, Fin c]
           = JNum (py_round (max (min a b) (min (max a b) c)) 2)"
  using classify_feature_de [OF assms(1-6), of srt m st] unit_perpendicular [OF assms(6)]
  unfolding assms(7,8) multi_sondage_explicit
  by (simp only: delta_value_cases py_sub.simps py_abs.simps simp_thms)

theorem probe_delta_recorded_witness:
  "geometry feat_ruban = Some geom_ruban
   \<and> principal_axis geom_ruban = Some (100, 0, (0, 0), (100, 0))
   \<and> euclid 100 0 \<noteq> 0
   \<and> read_elev mnt_demo 25 5 = Some (Fin 100) \<and> read_elev mnt_demo 25 (- 5) = Some (Fin 101)
   \<and> read_elev mnt_demo 50 5 = Some (Fin 100) \<and> read_elev mnt_demo 50 (- 5) = Some (Fin 103)
   \<and> read_elev mnt_demo 75 5 = None
   \<and> properties (fst (classify_feature srt_id mnt_demo feat_ruban st0)) ''de'' = Some (JNum 3)"
proof -
  have e: "euclid 100 0 \<noteq> 0" by (simp add: euclid_axis_x)
  have g: "geometry feat_ruban = Some geom_ruban" by (simp add: feat_ruban_def)
  have v: "\<not> g_is_empty geom_ruban" "g_is_valid geom_ruban" by (simp_all add: geom_ruban_def)
  have p: "(0::real) = - 0 / euclid 100 0" "(1::real) = 100 / euclid 100 0"
    by (simp_all add: euclid_axis_x)
  from probe_delta_recorded [OF g v ruban_not_sliver principal_axis_ruban e p, of srt_id mnt_demo st0]
  have "properties (fst (classify_feature srt_id mnt_demo feat_ruban st0)) ''de'' = Some (JNum 3)"
    by (simp add: List.map_filter_simps read_elev_demo delta_value_1_3)
  with e g principal_axis_ruban read_elev_demo show ?thesis by simp
qed

text \<open>
  The ribbon on the demonstration raster: the stations at 25 m and 50 m give the
  differences 1 and 3, the station at 75 m lies outside the raster; the field \<open>de\<close> is 3,
  the median of 1 and 3 is 2.
\<close>

theorem delta_not_median_counterexample:
  "multi_sondage mnt_demo (0, 0) (100, 0) (- 0 / euclid 100 0) (100 / euclid 100 0)
     = [Fin 1, Fin 3]
   \<and> properties (fst (classify_feature srt_id mnt_demo feat_ruban st0)) ''de'' = Some (JNum 3)
   \<and> median_spec [1, 3] = 2"
proof -
  have e: "euclid 100 0 \<noteq> 0" by (simp add: euclid_axis_x)
  have g: "geometry feat_ruban = Some geom_ruban" by (simp add: feat_ruban_def)
  have v: "\<not> g_is_empty geom_ruban" "g_is_valid geom_ruban" by (simp_all add: geom_ruban_def)
  have p: "(- 0 / euclid 100 0) = 0" "100 / euclid 100 0 = 1" by (simp_all add: euclid_axis_x)
  from classify_feature_de [OF g v ruban_not_sliver principal_axis_ruban e, of srt_id mnt_demo st0]
  show ?thesis
    by (simp only: p multi_sondage_ruban delta_value_1_3 median_spec_1_3)
qed

text \<open>
  What \<open>read_elev\<close> does: no reading exactly when the point is outside the bounds of the
  raster, or its pixel is outside the array, or the comparison \<^verbatim>\<open>elev == mnt_nodata\<close> holds,
  or one of \<^verbatim>\<open>elev < -100\<close>, \<^verbatim>\<open>elev > 5000\<close> holds.  For a sample that is a number these are
  the four cases of the specification; for NaN none of the comparisons holds.
\<close>

lemma read_elev_None_iff:
  "read_elev m x y = None \<longleftrightarrow>
      (x < bounds_left m \<or> x > bounds_right m \<or> y < bounds_bottom m \<or> y > bounds_top m)
    \<or> \<not> (0 \<le> fst (mnt_index m x y) \<and> fst (mnt_index m x y) < mnt_height m
          \<and> 0 \<le> snd (mnt_index m x y) \<and> snd (mnt_index m x y) < mnt_width m)
    \<or> (\<exists>nodata. mnt_nodata m = Some nodata
          \<and> py_eq (mnt_band m (fst (mnt_index m x y)) (snd (mnt_index m x y))) nodata)
    \<or> py_lt (mnt_band m (fst (mnt_index m x y)) (snd (mnt_index m x y))) (Fin (- 100))
    \<or> py_lt (Fin 5000) (mnt_band m (fst (mnt_index m x y)) (snd (mnt_index m x y)))"
  by (cases "mnt_index m x y") (auto simp: read_elev_def Let_def split: option.splits)

lemma read_elev_number:
  assumes "mnt_band m (fst (mnt_index m x y)) (snd (mnt_index m x y)) = Fin e"
  shows "read_elev m x y = None \<longleftrightarrow>
      (x < bounds_left m \<or> x > bounds_right m \<or> y < bounds_bottom m \<or> y > bounds_top m)
    \<or> \<not> (0 \<le> fst (mnt_index m x y) \<and> fst (mnt_index m x y) < mnt_height m
          \<and> 0 \<le> snd (mnt_index m x y) \<and> snd (mnt_index m x y) < mnt_width m)
    \<or> mnt_nodata m = Some (Fin e)
    \<or> e < - 100 \<or> e > 5000"
proof -
  have "(\<exists>nodata. mnt_nodata m = Some nodata \<and> py_eq (Fin e) nodata) \<longleftrightarrow> mnt_nodata m = Some (Fin e)"
  proof
    assume "\<exists>nodata. mnt_nodata m = Some nodata \<and> py_eq (Fin e) nodata"
    then obtain nodata where n: "mnt_nodata m = Some nodata" "py_eq (Fin e) nodata" by blast
    then show "mnt_nodata m = Some (Fin e)" by (cases nodata) simp_all
  qed simp
  then show ?thesis unfolding read_elev_None_iff assms by simp
qed

lemma sondage_Some_iff:
  "sondage m ax_start ax_end perp_x perp_y fraction = Some d \<longleftrightarrow>
     (\<exists>a b. read_elev m (fst ax_start + (fst ax_end - fst ax_start) * fraction + perp_x * DIST_SONDAGE)
                        (snd ax_start + (snd ax_end - snd ax_start) * fraction + perp_y * DIST_SONDAGE) = Some a
          \<and> read_elev m (fst ax_start + (fst ax_end - fst ax_start) * fraction - perp_x * DIST_SONDAGE)
                        (snd ax_start + (snd ax_end - snd ax_start) * fraction - perp_y * DIST_SONDAGE) = Some b
          \<and> d = py_abs (py_sub a b))"
  by (auto simp: sondage_def Let_def split: option.splits)

text \<open>
  C7, on a raster whose no-data value is NaN: the point (25, -5) lies inside the bounds,
  its pixel (15, 25) inside the array, its sample is the no-data value NaN, which is also
  no elevation between -100 and 5000; \<open>read_elev\<close> returns NaN as a reading, and the
  station at 1/4 of the ribbon's axis contributes the difference NaN, which ends in the
  field \<open>de\<close>.
\<close>

theorem read_elev_nan:
  "bounds_left mnt_nan \<le> 25 \<and> 25 \<le> bounds_right mnt_nan
   \<and> bounds_bottom mnt_nan \<le> - 5 \<and> - 5 \<le> bounds_top mnt_nan
   \<and> mnt_index mnt_nan 25 (- 5) = (15, 25)
   \<and> 15 < mnt_height mnt_nan \<and> 25 < mnt_width mnt_nan
   \<and> mnt_band mnt_nan 15 25 = NaN
   \<and> mnt_nodata mnt_nan = Some NaN
   \<and> read_elev mnt_nan 25 (- 5) = Some NaN
   \<and> read_elev mnt_nan 25 5 = Some (Fin 100)
   \<and> sondage mnt_nan (0, 0) (100, 0) 0 1 (1 / 4) = Some NaN
   \<and> properties (fst (classify_feature srt_id mnt_nan feat_ruban st0)) ''de'' = Some JNaN"
proof -
  have r: "read_elev mnt_nan 25 (- 5) = Some NaN" "read_elev mnt_nan 25 5 = Some (Fin 100)"
    "read_elev mnt_nan 50 (- 5) = Some NaN" "read_elev mnt_nan 50 5 = Some (Fin 100)"
    "read_elev mnt_nan 75 (- 5) = None" "read_elev mnt_nan 75 5 = None"
    by (simp_all add: read_elev_def mnt_nan_def)
  have s: "sondage mnt_nan (0, 0) (100, 0) 0 1 (1 / 4) = Some NaN"
    by (simp add: sondage_def DIST_SONDAGE_def r)
  have ms: "multi_sondage mnt_nan (0, 0) (100, 0) 0 1 = [NaN, NaN]"
    by (simp add: multi_sondage_def List.map_filter_simps sondage_def DIST_SONDAGE_def r)
  have dv: "delta_value srt_id [NaN, NaN] = JNaN"
    by (simp add: delta_value_def list_sort_def srt_id_def)
  have e: "euclid 100 0 \<noteq> 0" by (simp add: euclid_axis_x)
  have g: "geometry feat_ruban = Some geom_ruban" by (simp add: feat_ruban_def)
  have v: "\<not> g_is_empty geom_ruban" "g_is_valid geom_ruban" by (simp_all add: geom_ruban_def)
  have p: "(- 0 / euclid 100 0) = 0" "100 / euclid 100 0 = 1" by (simp_all add: euclid_axis_x)
  from classify_feature_de [OF g v ruban_not_sliver principal_axis_ruban e, of srt_id mnt_nan st0]
  have d: "properties (fst (classify_feature srt_id mnt_nan feat_ruban st0)) ''de'' = Some JNaN"
    by (simp only: p ms dv)
  from r s d show ?thesis by (simp add: mnt_nan_def)
qed

lemma classify_feature_invalid:
  assumes "geometry feat = Some g" "g_is_empty g \<or> \<not> g_is_valid g"
  shows "classify_feature srt m feat st =
     (feat\<lparr>properties := (properties feat)(''c'' \<mapsto> JStr ''m'', ''de'' \<mapsto> JInt 0)\<rparr>,
      st\<lparr>count_err := count_err st + 1\<rparr>)"
  using assms by (auto simp: classify_feature_def classify_try_def mark_mur_def)

lemma classify_feature_no_ring:
  assumes "geometry feat = Some g" "\<not> g_is_empty g" "g_is_valid g"
    "\<not> (g_area g > 0 \<and> g_length g / sqrt (g_area g) > 20)" "principal_axis g = None"
  shows "classify_feature srt m feat st =
     (feat\<lparr>properties := (properties feat)(''c'' \<mapsto> JStr ''m'', ''t'' \<mapsto> JInt 0, ''de'' \<mapsto> JInt 0)\<rparr>,
      st\<lparr>count_err := count_err st + 1\<rparr>)"
  using assms by (auto simp: classify_feature_def classify_try_def Let_def)

lemma classify_feature_zero_axis:
  assumes "geometry feat = Some g" and "\<not> g_is_empty g" and "g_is_valid g"
    and "principal_axis g = Some (dx, dy, ax_start, ax_end)" and "euclid dx dy = 0"
  shows "fst (classify_feature srt m feat st)
           = feat\<lparr>properties := (properties feat)(''c'' \<mapsto> JStr ''m'', ''de'' \<mapsto> JInt 0)\<rparr>
       \<and> count_mur (snd (classify_feature srt m feat st)) = count_mur st + 1
       \<and> count_terrasse (snd (classify_feature srt m feat st)) = count_terrasse st
       \<and> count_err (snd (classify_feature srt m feat st)) = count_err st
       \<and> properties (fst (classify_feature srt m feat st)) ''gc'' = properties feat ''gc''
       \<and> classify_feature srt' m' feat st = classify_feature srt m feat st"
proof (cases "g_area g > 0 \<and> g_length g / sqrt (g_area g) > 20")
  case True
  then show ?thesis
    using classify_try_sliver [OF assms(1-3), of srt m st] classify_try_sliver [OF assms(1-3), of srt' m' st]
    by (simp add: classify_feature_def mark_mur_def)
next
  case False
  then show ?thesis
    using classify_try_degenerate [OF assms(1-3) False assms(4,5), of srt m st]
      classify_try_degenerate [OF assms(1-3) False assms(4,5), of srt' m' st]
    by (simp add: classify_feature_def mark_mur_def)
qed

text \<open>
  C10, as the script has it.  A polygon that passes the first guard (geometry read, not
  empty, valid) and whose rotated rectangle has an exterior ring with a longer edge of
  length zero is labelled wall with delta 0 and counted as a wall (not as a terrace, not
  as an error); no compactness is recorded and the result does not depend on the elevation
  raster, so no probe is run and nothing is divided by the length.  A geometry that is
  empty or invalid is labelled wall with delta 0 and counted as an error; so is, with type
  0, a valid one that is no sliver and whose rotated rectangle has no exterior ring.
\<close>

theorem degenerate_axis_is_mur:
  assumes "geometry feat = Some g"
  shows "(\<not> g_is_empty g \<and> g_is_valid g
            \<and> principal_axis g = Some (dx, dy, ax_start, ax_end) \<and> euclid dx dy = 0 \<longrightarrow>
              fst (classify_feature srt m feat st)
                = feat\<lparr>properties := (properties feat)(''c'' \<mapsto> JStr ''m'', ''de'' \<mapsto> JInt 0)\<rparr>
            \<and> count_mur (snd (classify_feature srt m feat st)) = count_mur st + 1
            \<and> count_terrasse (snd (classify_feature srt m feat st)) = count_terrasse st
            \<and> count_err (snd (classify_feature srt m feat st)) = count_err st
            \<and> properties (fst (classify_feature srt m feat st)) ''gc'' = properties feat ''gc''
            \<and> classify_feature srt' m' feat st = classify_feature srt m feat st)
       \<and> (g_is_empty g \<or> \<not> g_is_valid g \<longrightarrow>
              classify_feature srt m feat st =
                (feat\<lparr>properties := (properties feat)(''c'' \<mapsto> JStr ''m'', ''de'' \<mapsto> JInt 0)\<rparr>,
                 st\<lparr>count_err := count_err st + 1\<rparr>))
       \<and> (\<not> g_is_empty g \<and> g_is_valid g
            \<and> \<not> (g_area g > 0 \<and> g_length g / sqrt (g_area g) > 20)
            \<and> principal_axis g = None \<longrightarrow>
              classify_feature srt m feat st =
                (feat\<lparr>properties := (properties feat)
                        (''c'' \<mapsto> JStr ''m'', ''t'' \<mapsto> JInt 0, ''de'' \<mapsto> JInt 0)\<rparr>,
                 st\<lparr>count_err := count_err st + 1\<rparr>))"
  using classify_feature_zero_axis [OF assms, of dx dy ax_start ax_end srt m st srt' m']
    classify_feature_invalid [OF assms, of srt m st]
    classify_feature_no_ring [OF assms, of srt m st]
  by blast

theorem degenerate_axis_is_mur_witness:
  "geometry feat_point \<noteq> None
   \<and> principal_axis (the (geometry feat_point)) = Some (0, 0, (3, 3), (3, 3))
   \<and> euclid 0 0 = 0
   \<and> properties (fst (classify_feature srt_id mnt_demo feat_point st0)) ''c'' = Some (JStr ''m'')
   \<and> properties (fst (classify_feature srt_id mnt_demo feat_point st0)) ''de'' = Some (JInt 0)
   \<and> properties (fst (classify_feature srt_id mnt_demo feat_point st0)) ''gc'' = Some (JNum 1)
   \<and> snd (classify_feature srt_id mnt_demo feat_point st0) = st0\<lparr>count_mur := 1\<rparr>
   \<and> snd (classify_feature srt_id mnt_demo feat_invalide st0) = st0\<lparr>count_err := 1\<rparr>
   \<and> principal_axis (the (geometry feat_sans_anneau)) = None
   \<and> properties (fst (classify_feature srt_id mnt_demo feat_sans_anneau st0)) ''t'' = Some (JInt 0)
   \<and> snd (classify_feature srt_id mnt_demo feat_sans_anneau st0) = st0\<lparr>count_err := 1\<rparr>"
proof -
  let ?g = "\<lparr>g_is_empty = False, g_is_valid = True, g_area = 0, g_length = 0,
              g_mrr = [(3, 3), (3, 3), (3, 3), (3, 3), (3, 3)]\<rparr>"
  let ?i = "\<lparr>g_is_empty = False, g_is_valid = False, g_area = 0, g_length = 0,
              g_mrr = [(3, 3), (3, 3), (3, 3), (3, 3), (3, 3)]\<rparr>"
  let ?p = "\<lparr>g_is_empty = False, g_is_valid = True, g_area = 0, g_length = 0,
              g_mrr = ([] :: point list)\<rparr>"
  have g: "geometry feat_point = Some ?g" by (simp add: feat_point_def)
  have i: "geometry feat_invalide = Some ?i" by (simp add: feat_invalide_def)
  have p: "geometry feat_sans_anneau = Some ?p" by (simp add: feat_sans_anneau_def)
  have a: "principal_axis ?g = Some (0, 0, (3, 3), (3, 3))"
    by (simp add: principal_axis_def euclid_axis_x)
  have n: "principal_axis ?p = None" by (simp add: principal_axis_def)
  have e: "euclid 0 0 = 0" by (simp add: euclid_axis_x)
  from degenerate_axis_is_mur [OF g, of 0 0 "(3, 3)" "(3, 3)" srt_id mnt_demo st0 srt_id mnt_demo] a e
  have 1: "properties (fst (classify_feature srt_id mnt_demo feat_point st0)) ''c'' = Some (JStr ''m'')"
    "properties (fst (classify_feature srt_id mnt_demo feat_point st0)) ''de'' = Some (JInt 0)"
    "properties (fst (classify_feature srt_id mnt_demo feat_point st0)) ''gc'' = Some (JNum 1)"
    "count_mur (snd (classify_feature srt_id mnt_demo feat_point st0)) = 1"
    "count_terrasse (snd (classify_feature srt_id mnt_demo feat_point st0)) = 0"
    "count_err (snd (classify_feature srt_id mnt_demo feat_point st0)) = 0"
    by (simp_all add: st0_def feat_point_def)
  from degenerate_axis_is_mur [OF i, of 0 0 "(3, 3)" "(3, 3)" srt_id mnt_demo st0 srt_id mnt_demo]
  have 2: "snd (classify_feature srt_id mnt_demo feat_invalide st0) = st0\<lparr>count_err := 1\<rparr>"
    by (simp add: st0_def)
  from degenerate_axis_is_mur [OF p, of 0 0 "(3, 3)" "(3, 3)" srt_id mnt_demo st0 srt_id mnt_demo] n
  have 3: "properties (fst (classify_feature srt_id mnt_demo feat_sans_anneau st0)) ''t'' = Some (JInt 0)"
    "snd (classify_feature srt_id mnt_demo feat_sans_anneau st0) = st0\<lparr>count_err := 1\<rparr>"
    by (simp_all add: st0_def)
  have s: "snd (classify_feature srt_id mnt_demo feat_point st0) = st0\<lparr>count_mur := 1\<rparr>"
    using classify_try_degenerate [OF g _ _ _ a e, of srt_id mnt_demo st0]
    by (simp add: classify_feature_def st0_def)
  from g a e n p 1 2 3 s show ?thesis by simp
qed

text \<open>
  An invalid polygon of four equal points and a point: both are degenerate, the rotated
  rectangle of the first has edges of length zero and that of the second no ring; both are
  counted as errors and the wall counter stays at 0.
\<close>

theorem degenerate_is_error_counterexample:
  "geometry feat_invalide \<noteq> None
   \<and> \<not> g_is_valid (the (geometry feat_invalide))
   \<and> principal_axis (the (geometry feat_invalide)) = Some (0, 0, (3, 3), (3, 3))
   \<and> euclid 0 0 = 0
   \<and> properties (fst (classify_feature srt_id mnt_demo feat_invalide st0)) ''c'' = Some (JStr ''m'')
   \<and> count_mur (snd (classify_feature srt_id mnt_demo feat_invalide st0)) = 0
   \<and> count_err (snd (classify_feature srt_id mnt_demo feat_invalide st0)) = 1
   \<and> g_mrr (the (geometry feat_sans_anneau)) = []
   \<and> count_mur (snd (classify_feature srt_id mnt_demo feat_sans_anneau st0)) = 0
   \<and> count_err (snd (classify_feature srt_id mnt_demo feat_sans_anneau st0)) = 1"
proof -
  let ?i = "\<lparr>g_is_empty = False, g_is_valid = False, g_area = 0, g_length = 0,
              g_mrr = [(3, 3), (3, 3), (3, 3), (3, 3), (3, 3)]\<rparr>"
  let ?p = "\<lparr>g_is_empty = False, g_is_valid = True, g_area = 0, g_length = 0,
              g_mrr = ([] :: point list)\<rparr>"
  have i: "geometry feat_invalide = Some ?i" by (simp add: feat_invalide_def)
  have p: "geometry feat_sans_anneau = Some ?p" by (simp add: feat_sans_anneau_def)
  have a: "principal_axis ?i = Some (0, 0, (3, 3), (3, 3))"
    by (simp add: principal_axis_def euclid_axis_x)
  have n: "principal_axis ?p = None" by (simp add: principal_axis_def)
  have e: "euclid 0 0 = 0" by (simp add: euclid_axis_x)
  from classify_feature_invalid [OF i, of srt_id mnt_demo st0]
  have 1: "properties (fst (classify_feature srt_id mnt_demo feat_invalide st0)) ''c'' = Some (JStr ''m'')"
    "count_mur (snd (classify_feature srt_id mnt_demo feat_invalide st0)) = 0"
    "count_err (snd (classify_feature srt_id mnt_demo feat_invalide st0)) = 1"
    by (simp_all add: st0_def)
  from classify_feature_no_ring [OF p _ _ _ n, of srt_id mnt_demo st0]
  have 2: "count_mur (snd (classify_feature srt_id mnt_demo feat_sans_anneau st0)) = 0"
    "count_err (snd (classify_feature srt_id mnt_demo feat_sans_anneau st0)) = 1"
    by (simp_all add: st0_def)
  from i p a e 1 2 show ?thesis by simp
qed

subsection \<open>Vectorisation and global merge\<close>

lemma any_eq_1_iff: "any_eq_1 data \<longleftrightarrow> (\<exists>i < nrows data. \<exists>j < ncols data. cell data i j = 1)"
  by (simp add: any_eq_1_def list_ex_iff Bex_def)

lemma chunks_short: "0 < n \<Longrightarrow> xs \<noteq> [] \<Longrightarrow> length xs \<le> n \<Longrightarrow> chunks n xs = [xs]"
  by (cases n; cases xs) simp_all

lemma concat_chunks: "0 < n \<Longrightarrow> concat (chunks n xs) = xs"
  by (induction n xs rule: chunks.induct) simp_all

lemma chunks_bounds: "c \<in> set (chunks n xs) \<Longrightarrow> c \<noteq> [] \<and> length c \<le> n"
  by (induction n xs rule: chunks.induct) auto

lemma chunks_full: "Suc i < length (chunks n xs) \<Longrightarrow> length (chunks n xs ! i) = n"
proof (induction n xs arbitrary: i rule: chunks.induct)
  case (3 n x xs)
  show ?case
  proof (cases i)
    case 0
    from 3(2) have "chunks (Suc n) (drop n xs) \<noteq> []" by auto
    then have "drop n xs \<noteq> []" by auto
    then have "n < length xs" by simp
    with 0 show ?thesis by simp
  next
    case (Suc k)
    with 3 show ?thesis by simp
  qed
qed simp_all

lemma fusion_partielle_ok:
  "map uu cs = map Some us \<Longrightarrow> fusion_partielle uu cs = (cs, Some us)"
  by (induction cs arbitrary: us) (auto split: option.splits)

lemma fusion_partielle_fails:
  "c \<in> set cs \<Longrightarrow> uu c = None \<Longrightarrow> snd (fusion_partielle uu cs) = None"
  by (induction cs) (auto split: option.splits prod.splits)

lemma E_bandes_sel:
  "rio_read (E_bandes d) = (\<lambda>w. Some d)"
  "rio_shapes (E_bandes d) = (\<lambda>mask w. Some [([(0, 3)], 1), ([(4, 7)], 1)])"
  "shape_of (E_bandes d) = Some"
  "simplify (E_bandes d) = (\<lambda>tol g. Some g)"
  "buffer (E_bandes d) = bande_buffer"
  "is_empty (E_bandes d) = (\<lambda>g. g = [])"
  "is_valid (E_bandes d) = bande_valid"
  "area (E_bandes d) = bande_area"
  "unary_union (E_bandes d) = bande_union"
  by (simp_all add: E_bandes_def)

lemma etape_vectorisation_rien:
  assumes "concat (map (\<lambda>batch. process_window_batch E batch MIN_AREA 2 0.5) (chunks 50 windows_list)) = []"
  shows "etape_vectorisation E windows_list geojson = Some (0, geojson)"
  using assms by (simp add: etape_vectorisation_def Let_def)

lemma batch_plat: "process_window_batch (E_bandes data_plat) [bloc_7x5] a p t = []"
  by (simp add: process_window_batch_def E_bandes_sel any_eq_1_iff data_plat_def)

lemma batches_plat:
  "concat (map (\<lambda>batch. process_window_batch (E_bandes data_plat) batch MIN_AREA 2 0.5)
     (chunks 50 [bloc_7x5])) = []"
proof -
  have c: "chunks 50 [bloc_7x5] = [[bloc_7x5]]" by (simp add: chunks_short)
  show ?thesis by (simp add: c batch_plat)
qed

text \<open>
  C3, as the script has it: when the batches return no polygon, the stage returns the
  count 0 without an exception, before the merge and the export, and leaves the GeoJSON
  file as it was; no feature collection is written, so that a file that did not exist
  still does not exist.
\<close>

theorem vectorisation_vide:
  assumes "concat (map (\<lambda>batch. process_window_batch E batch MIN_AREA 2 0.5) (chunks 50 windows_list)) = []"
  shows "etape_vectorisation E windows_list geojson = Some (0, geojson)
       \<and> etape_vectorisation E windows_list None = Some (0, None)"
  using assms by (simp add: etape_vectorisation_def Let_def)

theorem vectorisation_vide_witness:
  "chunks 50 [bloc_7x5] = [[bloc_7x5]]
   \<and> process_window_batch (E_bandes data_plat) [bloc_7x5] MIN_AREA 2 0.5 = []
   \<and> etape_vectorisation (E_bandes data_plat) [bloc_7x5] (Some []) = Some (0, Some [])
   \<and> etape_vectorisation (E_bandes data_plat) [bloc_7x5] None = Some (0, None)"
  using vectorisation_vide [OF batches_plat, of "Some []"] batch_plat
  by (simp add: chunks_short)

text \<open>
  A mask without a pixel set and no GeoJSON file: the stage returns 0 and there is still
  no file, hence no feature collection with an empty feature list.
\<close>

theorem vectorisation_vide_counterexample:
  "chunks 50 [bloc_7x5] = [[bloc_7x5]]
   \<and> process_window_batch (E_bandes data_plat) [bloc_7x5] MIN_AREA 2 0.5 = []
   \<and> etape_vectorisation (E_bandes data_plat) [bloc_7x5] None = Some (0, None)
   \<and> etape_vectorisation (E_bandes data_plat) [bloc_7x5] None \<noteq> Some (0, Some [])"
  using etape_vectorisation_rien [OF batches_plat, of None] batch_plat
  by (simp add: chunks_short)

lemma lissage_seul:
  "lissage (E_bandes d) [(0, 3)] = Some [(0, 3)]" "lissage (E_bandes d) [(4, 7)] = Some [(4, 7)]"
  by (simp_all add: lissage_def E_bandes_sel bande_buffer_def)

lemma lissage_ensemble: "lissage (E_bandes d) [(0, 3), (4, 7)] = Some [(0, 7)]"
  by (simp add: lissage_def E_bandes_sel bande_buffer_def)

lemma any_fragments: "any_eq_1 data_fragments"
  unfolding any_eq_1_iff by (rule exI [of _ 2], simp add: data_fragments_def, rule exI [of _ 2], simp)

text \<open>
  The worker treats every traced region on its own: the polygons of a list of regions are
  those of its parts, so a region never meets another one in the closing or in the area
  filter.
\<close>

lemma process_shapes_append:
  "process_shapes E min_area tol (xs @ ys)
     = process_shapes E min_area tol xs @ process_shapes E min_area tol ys"
  by (simp add: process_shapes_def List.map_filter_def)

lemma process_shape_alone:
  "process_shape E min_area tol geom = Some g \<Longrightarrow> area E g \<ge> min_area \<and> area E g \<le> 10000"
  by (auto simp: process_shape_def Let_def split: option.splits if_splits)

text \<open>
  C4, at two regions of 15 square metres one metre apart: closed together they are one
  polygon of 35 square metres, but the worker closes each alone, finds 15 square metres
  twice and returns nothing.
\<close>

theorem fragments_dropped:
  "area (E_bandes data_fragments) [(0, 3)] = 15
   \<and> area (E_bandes data_fragments) [(4, 7)] = 15
   \<and> lissage (E_bandes data_fragments) [(0, 3), (4, 7)] = Some [(0, 7)]
   \<and> area (E_bandes data_fragments) [(0, 7)] = 35
   \<and> process_window_batch (E_bandes data_fragments) [bloc_7x5] 20 2 0.5 = []"
proof -
  have p: "\<And>t. process_shape (E_bandes data_fragments) 20 t [(0, 3)] = None"
     "\<And>t. process_shape (E_bandes data_fragments) 20 t [(4, 7)] = None"
    by (simp_all add: process_shape_def lissage_seul E_bandes_sel bande_area_def bande_valid_def)
  have b: "process_window_batch (E_bandes data_fragments) [bloc_7x5] 20 2 0.5 = []"
    using any_fragments
    by (simp add: process_window_batch_def process_shapes_def List.map_filter_simps p E_bandes_sel)
  show ?thesis using b lissage_ensemble [of data_fragments]
    by (simp add: E_bandes_sel bande_area_def)
qed

text \<open>
  C5, as the script has it: for a non-empty list the merger calls one bulk union; when it
  succeeds, that is the only call and its result is the merged geometry.  Exactly when it
  raises, the list is cut into consecutive chunks of 1000 (the last one possibly shorter,
  none empty), each chunk is united in order, and the partial unions are united.  A merged
  geometry is produced when all these unions succeed; a union that raises in the fallback
  is not caught, and a list of at most 1000 polygons is retried as one chunk equal to the
  list, which raises again.
\<close>

theorem fusion_globale_fallback:
  assumes "all_polygons \<noteq> []"
  shows "(uu all_polygons = Some g \<longrightarrow> fusion_globale uu all_polygons = ([all_polygons], Some g))
       \<and> (uu all_polygons = None \<longrightarrow>
            concat (chunks 1000 all_polygons) = all_polygons
          \<and> (\<forall>c \<in> set (chunks 1000 all_polygons). c \<noteq> [] \<and> length c \<le> 1000)
          \<and> (\<forall>i. Suc i < length (chunks 1000 all_polygons) \<longrightarrow>
                 length (chunks 1000 all_polygons ! i) = 1000)
          \<and> (\<forall>us. map uu (chunks 1000 all_polygons) = map Some us \<longrightarrow>
                 fusion_globale uu all_polygons
                   = (all_polygons # chunks 1000 all_polygons @ [us], uu us))
          \<and> ((\<exists>c \<in> set (chunks 1000 all_polygons). uu c = None) \<longrightarrow>
                 snd (fusion_globale uu all_polygons) = None)
          \<and> (length all_polygons \<le> 1000 \<longrightarrow>
                 fusion_globale uu all_polygons = ([all_polygons, all_polygons], None)))"
proof (intro conjI impI allI)
  assume "uu all_polygons = Some g"
  then show "fusion_globale uu all_polygons = ([all_polygons], Some g)"
    by (simp add: fusion_globale_def)
next
  show "concat (chunks 1000 all_polygons) = all_polygons" by (simp add: concat_chunks)
next
  show "\<forall>c \<in> set (chunks 1000 all_polygons). c \<noteq> [] \<and> length c \<le> 1000"
    using chunks_bounds by blast
next
  fix i assume "Suc i < length (chunks 1000 all_polygons)"
  then show "length (chunks 1000 all_polygons ! i) = 1000" by (rule chunks_full)
next
  fix us assume "uu all_polygons = None" "map uu (chunks 1000 all_polygons) = map Some us"
  then show "fusion_globale uu all_polygons = (all_polygons # chunks 1000 all_polygons @ [us], uu us)"
    by (simp add: fusion_globale_def fusion_partielle_ok)
next
  assume n: "uu all_polygons = None" and "\<exists>c \<in> set (chunks 1000 all_polygons). uu c = None"
  then have "snd (fusion_partielle uu (chunks 1000 all_polygons)) = None"
    by (auto simp: fusion_partielle_fails)
  with n show "snd (fusion_globale uu all_polygons) = None"
    by (auto simp: fusion_globale_def split: prod.splits)
next
  assume n: "uu all_polygons = None" and "length all_polygons \<le> 1000"
  with assms have "chunks 1000 all_polygons = [all_polygons]" by (simp add: chunks_short)
  with n show "fusion_globale uu all_polygons = ([all_polygons, all_polygons], None)"
    by (simp add: fusion_globale_def)
qed

lemma bande_union_two: "bande_union [[(0, 3)], [(2, 7)]] = Some [(0, 7)]"
  by (simp add: bande_union_def bande_valid_def)

lemma bande_union_malformed: "bande_union [[(0, 3)], [(7, 4)]] = None"
  by (simp add: bande_union_def bande_valid_def)

theorem fusion_globale_fallback_witness:
  "[[(0, 3)], [(2, 7)]] \<noteq> ([] :: bande list)
   \<and> bande_union [[(0, 3)], [(2, 7)]] = Some [(0, 7)]
   \<and> fusion_globale bande_union [[(0, 3)], [(2, 7)]] = ([[[(0, 3)], [(2, 7)]]], Some [(0, 7)])
   \<and> bande_union [[(0, 3)], [(7, 4)]] = None
   \<and> length [[(0, 3)], [(7, 4)] :: bande] \<le> 1000
   \<and> fusion_globale bande_union [[(0, 3)], [(7, 4)]]
        = ([[[(0, 3)], [(7, 4)]], [[(0, 3)], [(7, 4)]]], None)"
proof -
  have a: "fusion_globale bande_union [[(0, 3)], [(2, 7)]] = ([[[(0, 3)], [(2, 7)]]], Some [(0, 7)])"
    using fusion_globale_fallback [of "[[(0, 3)], [(2, 7)]]" bande_union "[(0, 7)]"] bande_union_two
    by simp
  have b: "fusion_globale bande_union [[(0, 3)], [(7, 4)]]
             = ([[[(0, 3)], [(7, 4)]], [[(0, 3)], [(7, 4)]]], None)"
    using fusion_globale_fallback [of "[[(0, 3)], [(7, 4)]]" bande_union] bande_union_malformed
    by simp
  from a b bande_union_two bande_union_malformed show ?thesis by simp
qed

text \<open>
  A single malformed polygon: the bulk union raises, the fallback unites the same list
  again as its only chunk, and no merged geometry is produced.
\<close>

theorem fusion_retry_counterexample:
  "bande_union [[(3, 0)]] = None
   \<and> fusion_globale bande_union [[(3, 0)]] = ([[[(3, 0)]], [[(3, 0)]]], None)"
proof -
  have n: "bande_union [[(3, 0)]] = None" by (simp add: bande_union_def bande_valid_def)
  have c: "chunks 1000 [[(3, 0)] :: bande] = [[[(3, 0)]]]" by (simp add: chunks_short)
  from n c show ?thesis by (simp add: fusion_globale_def)
qed


end
